theory Spec2Isabelle
  imports Main "HOL-Library.Sublist"
begin

section \<open>The job board of \<^verbatim>\<open>jobs.py\<close>: data model\<close>

text \<open>
  The three mapped classes of the source become records, one field per \<^verbatim>\<open>Column\<close>.
  Record fields share one name space, so every field carries the initial of its table:
  \<^verbatim>\<open>User.id\<close> is \<open>u_id\<close>, \<^verbatim>\<open>Job.recruiter_id\<close> is \<open>j_recruiter_id\<close>,
  \<^verbatim>\<open>Application.job_id\<close> is \<open>a_job_id\<close>, and so on. Python's \<^verbatim>\<open>int\<close> is \<open>int\<close>,
  \<^verbatim>\<open>str\<close> is \<open>string\<close>.
\<close>

record User =
  u_id :: int
  u_email :: string
  u_password :: string
  u_role :: string

record Job =
  j_id :: int
  j_title :: string
  j_description :: string
  j_recruiter_id :: int

record Application =
  a_id :: int
  a_candidate_id :: int
  a_job_id :: int

text \<open>The response model \<^verbatim>\<open>JobResponse\<close> of \<^verbatim>\<open>GET /jobs\<close>.\<close>

record JobResponse =
  r_id :: int
  r_title :: string
  r_description :: string

text \<open>
  The store behind a \<^verbatim>\<open>Session\<close>: the three tables, each a list of rows in insertion
  order. The store is an external collaborator of the source; what is modelled of it is
  what the source declares and uses: rows are kept as they were inserted, a query without
  \<^verbatim>\<open>ORDER BY\<close> reads a table in insertion order, an \<^verbatim>\<open>Integer\<close> primary key that the
  handler leaves out is assigned by the store, and the \<^verbatim>\<open>unique=True\<close> of
  \<^verbatim>\<open>users.email\<close> is enforced on insert. Strings are stored and compared as given
  (column widths and the server's collation are not part of the source).
\<close>

record database =
  users :: "User list"
  jobs :: "Job list"
  applications :: "Application list"

text \<open>
  What a request can raise: the \<^verbatim>\<open>HTTPException\<close> of a handler (status code and detail),
  the \<^verbatim>\<open>HTTPException\<close> of the bearer dependency, the \<^verbatim>\<open>IntegrityError\<close> of the store,
  and Python's \<^verbatim>\<open>AttributeError\<close> (with the attribute that was read).
\<close>

datatype error =
    HTTPException nat string
  | IntegrityError
  | AttributeError string

section \<open>The store\<close>

text \<open>An auto-increment key: keys start at 1, and a new key is one more than the largest key
  of the table.\<close>

definition next_id :: "int list \<Rightarrow> int" where
  "next_id ids = fold max ids 0 + 1"

text \<open>\<^verbatim>\<open>db.add(User(...)); db.commit()\<close>: the unique index on \<^verbatim>\<open>users.email\<close> rejects a
  second row with a stored email; nothing is written then.\<close>

definition add_user :: "database \<Rightarrow> string \<Rightarrow> string \<Rightarrow> string \<Rightarrow> error + database" where
  "add_user db e p r =
     (if e \<in> set (map u_email (users db)) then Inl IntegrityError
      else Inr (db\<lparr>users := users db @
             [\<lparr>u_id = next_id (map u_id (users db)), u_email = e, u_password = p, u_role = r\<rparr>]\<rparr>))"

text \<open>\<^verbatim>\<open>db.add(Job(...)); db.commit()\<close>\<close>

definition add_job :: "database \<Rightarrow> string \<Rightarrow> string \<Rightarrow> int \<Rightarrow> database" where
  "add_job db t d rid =
     db\<lparr>jobs := jobs db @
        [\<lparr>j_id = next_id (map j_id (jobs db)), j_title = t, j_description = d,
          j_recruiter_id = rid\<rparr>]\<rparr>"

text \<open>\<^verbatim>\<open>db.add(Application(...)); db.commit()\<close>\<close>

definition add_application :: "database \<Rightarrow> int \<Rightarrow> int \<Rightarrow> database" where
  "add_application db cid jid =
     db\<lparr>applications := applications db @
        [\<lparr>a_id = next_id (map a_id (applications db)), a_candidate_id = cid, a_job_id = jid\<rparr>]\<rparr>"

text \<open>The row that \<open>add_application\<close> appends for the candidate \<open>u\<close> and the job \<open>j\<close>.\<close>

definition new_application :: "database \<Rightarrow> User \<Rightarrow> Job \<Rightarrow> Application" where
  "new_application db u j =
     \<lparr>a_id = next_id (map a_id (applications db)), a_candidate_id = u_id u, a_job_id = j_id j\<rparr>"

text \<open>
  The relationships the source declares, and no other: \<^verbatim>\<open>Job.recruiter\<close>,
  \<^verbatim>\<open>Application.job\<close>, \<^verbatim>\<open>Application.candidate\<close>, \<^verbatim>\<open>User.jobs\<close> and
  \<^verbatim>\<open>User.applications\<close>. A many-to-one relationship reads the row its foreign key
  names (\<^verbatim>\<open>None\<close> when there is none), a one-to-many relationship the rows that name
  this one. \<^verbatim>\<open>Application.job\<close> is declared without a back reference, so class
  \<^verbatim>\<open>Job\<close> has no attribute \<^verbatim>\<open>applications\<close>.
\<close>

definition Job_recruiter :: "database \<Rightarrow> Job \<Rightarrow> User option" where
  "Job_recruiter db j = find (\<lambda>u. u_id u = j_recruiter_id j) (users db)"

definition Application_job :: "database \<Rightarrow> Application \<Rightarrow> Job option" where
  "Application_job db a = find (\<lambda>j. j_id j = a_job_id a) (jobs db)"

definition Application_candidate :: "database \<Rightarrow> Application \<Rightarrow> User option" where
  "Application_candidate db a = find (\<lambda>u. u_id u = a_candidate_id a) (users db)"

definition User_jobs :: "database \<Rightarrow> User \<Rightarrow> Job list" where
  "User_jobs db u = filter (\<lambda>j. j_recruiter_id j = u_id u) (jobs db)"

definition User_applications :: "database \<Rightarrow> User \<Rightarrow> Application list" where
  "User_applications db u = filter (\<lambda>a. a_candidate_id a = u_id u) (applications db)"

section \<open>The handlers\<close>

text \<open>
  A handler takes the store and the fields of its request and returns what it responds,
  \<open>Inl\<close> the exception that ended it, together with the store it leaves behind
  when it writes. \<^verbatim>\<open>query(...).filter(p).first()\<close> is \<open>find p\<close> on the table.
\<close>

text \<open>\<^verbatim>\<open>oauth2_scheme = OAuth2PasswordBearer(tokenUrl="/auth/token")\<close>: the dependency that
  hands a handler its \<^verbatim>\<open>token\<close>. Its argument is the credential of the request's bearer
  authorization header, \<open>None\<close> when the request has no such header.\<close>

definition oauth2_scheme :: "string option \<Rightarrow> error + string" where
  "oauth2_scheme bearer =
     (case bearer of
        None \<Rightarrow> Inl (HTTPException 401 ''Not authenticated'')
      | Some token \<Rightarrow> Inr token)"

definition default :: string where
  "default = ''welcome home''"

definition signup :: "database \<Rightarrow> string \<Rightarrow> string \<Rightarrow> string \<Rightarrow> (error + string) \<times> database" where
  "signup db e p r =
     (case find (\<lambda>u. u_email u = e) (users db) of
        Some existing_user \<Rightarrow> (Inl (HTTPException 400 ''User already exists''), db)
      | None \<Rightarrow>
          (case add_user db e p r of
             Inl err \<Rightarrow> (Inl err, db)
           | Inr db' \<Rightarrow> (Inr ''User created successfully'', db')))"

text \<open>The success value is the pair \<^verbatim>\<open>access_token\<close>, \<^verbatim>\<open>token_type\<close>.\<close>

definition login :: "database \<Rightarrow> string \<Rightarrow> string \<Rightarrow> error + string \<times> string" where
  "login db username pw =
     (case find (\<lambda>u. u_email u = username \<and> u_password u = pw) (users db) of
        None \<Rightarrow> Inl (HTTPException 400 ''Invalid credentials'')
      | Some user \<Rightarrow> Inr (u_email user, ''bearer''))"

definition to_JobResponse :: "Job \<Rightarrow> JobResponse" where
  "to_JobResponse j = \<lparr>r_id = j_id j, r_title = j_title j, r_description = j_description j\<rparr>"

definition list_jobs :: "database \<Rightarrow> string \<Rightarrow> JobResponse list" where
  "list_jobs db token = map to_JobResponse (jobs db)"

text \<open>The route \<^verbatim>\<open>GET /jobs\<close>: the dependency, then the handler.\<close>

definition get_jobs :: "database \<Rightarrow> string option \<Rightarrow> error + JobResponse list" where
  "get_jobs db bearer =
     (case oauth2_scheme bearer of
        Inl err \<Rightarrow> Inl err
      | Inr token \<Rightarrow> Inr (list_jobs db token))"

definition post_job :: "database \<Rightarrow> string \<Rightarrow> string \<Rightarrow> string \<Rightarrow> (error + string) \<times> database" where
  "post_job db token t d =
     (case find (\<lambda>u. u_email u = token) (users db) of
        None \<Rightarrow> (Inl (HTTPException 403 ''Not authorized''), db)
      | Some user \<Rightarrow>
          if u_role user \<noteq> ''recruiter'' then (Inl (HTTPException 403 ''Not authorized''), db)
          else (Inr ''Job posted successfully'', add_job db t d (u_id user)))"

text \<open>
  The mail relay is outside the program: \<open>smtp to msg\<close> is \<open>None\<close> when the relay
  takes the message \<open>msg\<close> for \<open>to\<close>, and \<open>Some e\<close> when connecting, logging in or
  sending raises the exception \<open>e\<close>. \<^verbatim>\<open>send_email\<close> returns nothing; the model returns
  the lines it prints.
\<close>

type_synonym smtp = "string \<Rightarrow> string \<Rightarrow> string option"

definition send_email :: "smtp \<Rightarrow> string \<Rightarrow> string \<Rightarrow> string \<Rightarrow> string list" where
  "send_email relay to_email subject body =
     (case relay to_email (''Subject: '' @ subject @ [CHR 0x0A, CHR 0x0A] @ body) of
        None \<Rightarrow> []
      | Some e \<Rightarrow> [''Error sending email: '' @ e])"

text \<open>
  \<^verbatim>\<open>apply_to_job\<close> returns its response, the store, and the lines printed. The arguments
  of the first \<^verbatim>\<open>send_email\<close> are evaluated after the commit and outside any
  \<^verbatim>\<open>try\<close>: \<^verbatim>\<open>job.recruiter.email\<close> raises \<^verbatim>\<open>AttributeError\<close> when \<^verbatim>\<open>job.recruiter\<close>
  is \<^verbatim>\<open>None\<close>.
\<close>

definition apply_to_job ::
  "smtp \<Rightarrow> database \<Rightarrow> string \<Rightarrow> int \<Rightarrow> (error + string) \<times> database \<times> string list" where
  "apply_to_job relay db token jid =
     (case find (\<lambda>u. u_email u = token) (users db) of
        None \<Rightarrow> (Inl (HTTPException 403 ''Not authorized''), db, [])
      | Some user \<Rightarrow>
          if u_role user \<noteq> ''candidate'' then (Inl (HTTPException 403 ''Not authorized''), db, [])
          else
            (case find (\<lambda>j. j_id j = jid) (jobs db) of
               None \<Rightarrow> (Inl (HTTPException 404 ''Job not found''), db, [])
             | Some job \<Rightarrow>
                 let db' = add_application db (u_id user) (j_id job) in
                 (case Job_recruiter db' job of
                    None \<Rightarrow> (Inl (AttributeError ''email''), db', [])
                  | Some recruiter \<Rightarrow>
                      let log1 = send_email relay (u_email recruiter) ''Job Application Received''
                                   (u_email user @ '' applied for your job '' @ [CHR 0x27]
                                      @ j_title job @ [CHR 0x27]);
                          log2 = send_email relay (u_email user) ''Application Submitted''
                                   (''You applied for the job '' @ [CHR 0x27]
                                      @ j_title job @ [CHR 0x27])
                      in (Inr ''Applied successfully'', db', log1 @ log2))))"

text \<open>\<^verbatim>\<open>application.job\<close> is \<open>None\<close> for an application whose job is not stored.\<close>

definition list_applications :: "database \<Rightarrow> string \<Rightarrow> error + Job option list" where
  "list_applications db token =
     (case find (\<lambda>u. u_email u = token) (users db) of
        None \<Rightarrow> Inl (HTTPException 403 ''Not authorized'')
      | Some user \<Rightarrow>
          if u_role user \<noteq> ''candidate'' then Inl (HTTPException 403 ''Not authorized'')
          else Inr (map (Application_job db) (User_applications db user)))"

text \<open>
  The last line of \<^verbatim>\<open>list_applicants\<close> reads \<^verbatim>\<open>job.applications\<close>. Class \<^verbatim>\<open>Job\<close>
  declares the columns and \<^verbatim>\<open>recruiter\<close> only, and no relationship of another class
  names a back reference into it, so the read raises \<^verbatim>\<open>AttributeError\<close> before the
  comprehension starts.
\<close>

definition list_applicants :: "database \<Rightarrow> string \<Rightarrow> int \<Rightarrow> error + string list" where
  "list_applicants db token jid =
     (case find (\<lambda>u. u_email u = token) (users db) of
        None \<Rightarrow> Inl (HTTPException 403 ''Not authorized'')
      | Some user \<Rightarrow>
          if u_role user \<noteq> ''recruiter'' then Inl (HTTPException 403 ''Not authorized'')
          else
            (case find (\<lambda>j. j_id j = jid \<and> j_recruiter_id j = u_id user) (jobs db) of
               None \<Rightarrow> Inl (HTTPException 404 ''Job not found'')
             | Some job \<Rightarrow> Inl (AttributeError ''applications'')))"

definition logout :: string where
  "logout = ''Logged out successfully''"

section \<open>Integrity of the store\<close>

text \<open>
  The constraints the schema declares: the primary keys, the unique index on
  \<^verbatim>\<open>users.email\<close> and the three foreign keys. The empty store satisfies them and every
  handler preserves them (\<open>wf_db_run\<close> below), so they hold in every store the program
  reaches.
\<close>

definition wf_db :: "database \<Rightarrow> bool" where
  "wf_db db \<longleftrightarrow>
     distinct (map u_id (users db)) \<and>
     distinct (map u_email (users db)) \<and>
     distinct (map j_id (jobs db)) \<and>
     distinct (map a_id (applications db)) \<and>
     (\<forall>j \<in> set (jobs db). j_recruiter_id j \<in> set (map u_id (users db))) \<and>
     (\<forall>a \<in> set (applications db).
        a_candidate_id a \<in> set (map u_id (users db)) \<and> a_job_id a \<in> set (map j_id (jobs db)))"

section \<open>Requests\<close>

text \<open>One constructor per route, with what the route reads from the request: the fields of the
  body and, on the routes that depend on \<^verbatim>\<open>oauth2_scheme\<close>, the bearer credential if there
  is one. \<open>handle\<close> is the response of the route and the store after it, \<open>run\<close> a sequence
  of requests.\<close>

datatype request =
    Default
  | Signup string string string
  | Login string string
  | ListJobs "string option"
  | PostJob "string option" string string
  | Apply "string option" int
  | ListApplications "string option"
  | ListApplicants "string option" int
  | Logout

datatype reply =
    Raised error
  | Message string
  | Token string string
  | JobList "JobResponse list"
  | AppliedJobs "Job option list"
  | Emails "string list"

definition reply_of :: "('a \<Rightarrow> reply) \<Rightarrow> error + 'a \<Rightarrow> reply" where
  "reply_of ok res = (case res of Inl err \<Rightarrow> Raised err | Inr x \<Rightarrow> ok x)"

fun handle :: "smtp \<Rightarrow> database \<Rightarrow> request \<Rightarrow> reply \<times> database" where
  "handle relay db Default = (Message default, db)"
| "handle relay db (Signup e p r) = (reply_of Message (fst (signup db e p r)), snd (signup db e p r))"
| "handle relay db (Login username pw) = (reply_of (\<lambda>(t, l). Token t l) (login db username pw), db)"
| "handle relay db (ListJobs bearer) = (reply_of JobList (get_jobs db bearer), db)"
| "handle relay db (PostJob bearer t d) =
     (case oauth2_scheme bearer of
        Inl err \<Rightarrow> (Raised err, db)
      | Inr token \<Rightarrow>
          (reply_of Message (fst (post_job db token t d)), snd (post_job db token t d)))"
| "handle relay db (Apply bearer jid) =
     (case oauth2_scheme bearer of
        Inl err \<Rightarrow> (Raised err, db)
      | Inr token \<Rightarrow>
          (reply_of Message (fst (apply_to_job relay db token jid)),
           fst (snd (apply_to_job relay db token jid))))"
| "handle relay db (ListApplications bearer) =
     (case oauth2_scheme bearer of
        Inl err \<Rightarrow> (Raised err, db)
      | Inr token \<Rightarrow> (reply_of AppliedJobs (list_applications db token), db))"
| "handle relay db (ListApplicants bearer jid) =
     (case oauth2_scheme bearer of
        Inl err \<Rightarrow> (Raised err, db)
      | Inr token \<Rightarrow> (reply_of Emails (list_applicants db token jid), db))"
| "handle relay db Logout = (Message logout, db)"

fun run :: "smtp \<Rightarrow> database \<Rightarrow> request list \<Rightarrow> database" where
  "run relay db [] = db"
| "run relay db (req # reqs) = run relay (snd (handle relay db req)) reqs"

text \<open>
  The store right after \<^verbatim>\<open>create_all\<close>, and the store of a small board: two recruiters,
  a candidate, a user who signed up with the role \<^verbatim>\<open>admin\<close>, one job and one application.
\<close>

definition empty_db :: database where
  "empty_db = \<lparr>users = [], jobs = [], applications = []\<rparr>"

definition board :: database where
  "board = \<lparr>users = [\<lparr>u_id = 1, u_email = ''r@x.com'', u_password = ''pw1'', u_role = ''recruiter''\<rparr>,
                      \<lparr>u_id = 2, u_email = ''c@x.com'', u_password = ''pw2'', u_role = ''candidate''\<rparr>,
                      \<lparr>u_id = 3, u_email = ''s@x.com'', u_password = ''pw3'', u_role = ''recruiter''\<rparr>,
                      \<lparr>u_id = 4, u_email = ''a@x.com'', u_password = ''pw4'', u_role = ''admin''\<rparr>],
             jobs = [\<lparr>j_id = 1, j_title = ''Backend Engineer'', j_description = ''APIs'', j_recruiter_id = 1\<rparr>],
             applications = [\<lparr>a_id = 1, a_candidate_id = 2, a_job_id = 1\<rparr>]\<rparr>"


section \<open>Keys and lookups\<close>

lemma fold_max_init: "(a::int) \<le> fold max ids a"
proof (induction ids arbitrary: a)
  case Nil
  show ?case by simp
next
  case (Cons y ys)
  have "a \<le> max y a" by simp
  also have "\<dots> \<le> fold max ys (max y a)" by (rule Cons.IH)
  finally show ?case by simp
qed

lemma fold_max_upper: "x \<in> set ids \<Longrightarrow> x \<le> fold max ids (a::int)"
proof (induction ids arbitrary: a)
  case Nil
  then show ?case by simp
next
  case (Cons y ys)
  show ?case
  proof (cases "x = y")
    case True
    have "x \<le> max y a" using True by simp
    also have "\<dots> \<le> fold max ys (max y a)" by (rule fold_max_init)
    finally show ?thesis by simp
  next
    case False
    with Cons.prems have "x \<in> set ys" by simp
    then show ?thesis using Cons.IH by simp
  qed
qed

lemma next_id_fresh: "next_id ids \<notin> set ids"
proof
  assume "next_id ids \<in> set ids"
  then have "next_id ids \<le> fold max ids 0" by (rule fold_max_upper)
  then show False by (simp add: next_id_def)
qed

lemma find_by_key:
  "distinct (map f xs) \<Longrightarrow> x \<in> set xs \<Longrightarrow> find (\<lambda>y. f y = f x) xs = Some x"
proof (induction xs)
  case Nil
  then show ?case by simp
next
  case (Cons y ys)
  then show ?case by (cases "y = x") auto
qed

lemma find_user_by_email:
  "wf_db db \<Longrightarrow> u \<in> set (users db) \<Longrightarrow> find (\<lambda>v. u_email v = u_email u) (users db) = Some u"
  by (simp add: wf_db_def find_by_key)

lemma find_job_by_id:
  "wf_db db \<Longrightarrow> j \<in> set (jobs db) \<Longrightarrow> find (\<lambda>k. j_id k = j_id j) (jobs db) = Some j"
  by (simp add: wf_db_def find_by_key)

lemma find_no_key: "k \<notin> set (map f xs) \<Longrightarrow> find (\<lambda>y. f y = k) xs = None"
  by (auto simp: find_None_iff)

section \<open>Every handler preserves the integrity of the store\<close>

lemma wf_db_empty: "wf_db empty_db"
  by (simp add: wf_db_def empty_db_def)

lemma wf_db_add_user:
  "wf_db db \<Longrightarrow> add_user db e p r = Inr db' \<Longrightarrow> wf_db db'"
  using next_id_fresh [of "map u_id (users db)"]
  by (auto simp: wf_db_def add_user_def split: if_splits)

lemma wf_db_add_job:
  "wf_db db \<Longrightarrow> u \<in> set (users db) \<Longrightarrow> wf_db (add_job db t d (u_id u))"
  using next_id_fresh [of "map j_id (jobs db)"]
  by (auto simp: wf_db_def add_job_def)

lemma wf_db_add_application:
  "wf_db db \<Longrightarrow> u \<in> set (users db) \<Longrightarrow> j \<in> set (jobs db) \<Longrightarrow>
   wf_db (add_application db (u_id u) (j_id j))"
  using next_id_fresh [of "map a_id (applications db)"]
  by (auto simp: wf_db_def add_application_def)

lemma wf_db_signup: "wf_db db \<Longrightarrow> wf_db (snd (signup db e p r))"
  by (auto simp: signup_def split: option.splits sum.splits dest: wf_db_add_user)

lemma find_Some_mem: "find P xs = Some x \<Longrightarrow> x \<in> set xs"
  by (auto simp: find_Some_iff)

lemma wf_db_post_job: "wf_db db \<Longrightarrow> wf_db (snd (post_job db token t d))"
  by (auto simp: post_job_def split: option.splits dest: find_Some_mem intro: wf_db_add_job)

lemma apply_to_job_db:
  "fst (snd (apply_to_job relay db token jid)) = db \<or>
   (\<exists>u \<in> set (users db). \<exists>j \<in> set (jobs db).
      fst (snd (apply_to_job relay db token jid)) = add_application db (u_id u) (j_id j))"
  by (auto simp: apply_to_job_def Let_def split: option.splits dest: find_Some_mem)

lemma wf_db_apply_to_job: "wf_db db \<Longrightarrow> wf_db (fst (snd (apply_to_job relay db token jid)))"
  using apply_to_job_db [of relay db token jid] by (auto intro: wf_db_add_application)

lemma wf_db_handle: "wf_db db \<Longrightarrow> wf_db (snd (handle relay db req))"
  by (cases req)
    (simp_all add: wf_db_signup wf_db_post_job wf_db_apply_to_job split: sum.splits)

lemma wf_db_run: "wf_db db \<Longrightarrow> wf_db (run relay db reqs)"
  by (induction reqs arbitrary: db) (simp_all add: wf_db_handle)

section \<open>What \<^verbatim>\<open>apply_to_job\<close> does\<close>

text \<open>The relay decides the printed lines only, never the response or the store.\<close>

lemma apply_to_job_relay_irrelevant:
  "fst (apply_to_job relay db token jid) = fst (apply_to_job relay' db token jid)
   \<and> fst (snd (apply_to_job relay db token jid)) = fst (snd (apply_to_job relay' db token jid))"
  by (simp add: apply_to_job_def Let_def split: option.splits)

lemma Job_recruiter_stored:
  assumes "wf_db db" and "j \<in> set (jobs db)"
  obtains rc where "rc \<in> set (users db)" and "u_id rc = j_recruiter_id j"
    and "Job_recruiter (add_application db cid jid) j = Some rc"
proof -
  have "j_recruiter_id j \<in> set (map u_id (users db))"
    using assms by (simp add: wf_db_def)
  then have "find (\<lambda>v. u_id v = j_recruiter_id j) (users db) \<noteq> None"
    by (auto simp: find_None_iff)
  then obtain rc where rc: "find (\<lambda>v. u_id v = j_recruiter_id j) (users db) = Some rc"
    by auto
  then have "rc \<in> set (users db)" and "u_id rc = j_recruiter_id j"
    by (auto simp: find_Some_iff)
  moreover from rc have "Job_recruiter (add_application db cid jid) j = Some rc"
    by (simp add: Job_recruiter_def add_application_def)
  ultimately show thesis by (rule that)
qed

lemma apply_to_job_applied:
  assumes "wf_db db" and "u \<in> set (users db)" and "u_role u = ''candidate''"
    and "j \<in> set (jobs db)"
  shows "\<exists>rc \<in> set (users db). u_id rc = j_recruiter_id j \<and>
           apply_to_job relay db (u_email u) (j_id j) =
             (Inr ''Applied successfully'', add_application db (u_id u) (j_id j),
              send_email relay (u_email rc) ''Job Application Received''
                (u_email u @ '' applied for your job '' @ [CHR 0x27] @ j_title j @ [CHR 0x27])
              @ send_email relay (u_email u) ''Application Submitted''
                (''You applied for the job '' @ [CHR 0x27] @ j_title j @ [CHR 0x27]))"
proof -
  obtain rc where rc: "rc \<in> set (users db)" "u_id rc = j_recruiter_id j"
    "Job_recruiter (add_application db (u_id u) (j_id j)) j = Some rc"
    using assms(1,4) by (rule Job_recruiter_stored)
  have "find (\<lambda>v. u_email v = u_email u) (users db) = Some u"
    using assms(1,2) by (rule find_user_by_email)
  moreover have "find (\<lambda>k. j_id k = j_id j) (jobs db) = Some j"
    using assms(1,4) by (rule find_job_by_id)
  ultimately have "apply_to_job relay db (u_email u) (j_id j) =
             (Inr ''Applied successfully'', add_application db (u_id u) (j_id j),
              send_email relay (u_email rc) ''Job Application Received''
                (u_email u @ '' applied for your job '' @ [CHR 0x27] @ j_title j @ [CHR 0x27])
              @ send_email relay (u_email u) ''Application Submitted''
                (''You applied for the job '' @ [CHR 0x27] @ j_title j @ [CHR 0x27]))"
    using assms(3) rc(3) by (simp add: apply_to_job_def Let_def)
  with rc(1,2) show ?thesis by blast
qed

lemma apply_to_job_no_job:
  assumes "wf_db db" and "u \<in> set (users db)" and "u_role u = ''candidate''"
    and "jid \<notin> set (map j_id (jobs db))"
  shows "apply_to_job relay db (u_email u) jid = (Inl (HTTPException 404 ''Job not found''), db, [])"
proof -
  have "find (\<lambda>v. u_email v = u_email u) (users db) = Some u"
    using assms(1,2) by (rule find_user_by_email)
  moreover have "find (\<lambda>k. j_id k = jid) (jobs db) = None"
    using assms(4) by (rule find_no_key)
  ultimately show ?thesis
    using assms(3) by (simp add: apply_to_job_def)
qed

section \<open>No handler touches a stored row\<close>

lemma handle_keeps:
  "prefix (users db) (users (snd (handle relay db req)))
   \<and> prefix (jobs db) (jobs (snd (handle relay db req)))
   \<and> prefix (applications db) (applications (snd (handle relay db req)))"
proof (cases req)
  case (Signup e p r)
  then show ?thesis
    by (auto simp: signup_def add_user_def split: option.splits)
next
  case (PostJob bearer t d)
  then show ?thesis
    by (auto simp: post_job_def add_job_def split: option.splits sum.splits)
next
  case (Apply bearer jid)
  show ?thesis
  proof (cases "oauth2_scheme bearer")
    case (Inl err)
    with Apply show ?thesis by simp
  next
    case (Inr token)
    with Apply show ?thesis
      using apply_to_job_db [of relay db token jid] by (auto simp: add_application_def)
  qed
qed (simp_all split: sum.splits)

lemma run_keeps:
  "prefix (users db) (users (run relay db reqs))
   \<and> prefix (jobs db) (jobs (run relay db reqs))
   \<and> prefix (applications db) (applications (run relay db reqs))"
proof (induction reqs arbitrary: db)
  case Nil
  show ?case by simp
next
  case (Cons req reqs)
  from handle_keeps [of db relay req] Cons.IH [of "snd (handle relay db req)"]
  show ?case by (auto intro: prefix_order.trans)
qed

lemma post_job_appends:
  assumes "fst (post_job db tok t d) = Inr msg"
  shows "\<exists>i rid. jobs (snd (post_job db tok t d)) =
           jobs db @ [\<lparr>j_id = i, j_title = t, j_description = d, j_recruiter_id = rid\<rparr>]"
  using assms by (auto simp: post_job_def add_job_def split: option.splits if_splits)

section \<open>The claims\<close>

lemma board_reachable:
  "run (\<lambda>_ _. None) empty_db
     [Signup ''r@x.com'' ''pw1'' ''recruiter'', Signup ''c@x.com'' ''pw2'' ''candidate'',
      Signup ''s@x.com'' ''pw3'' ''recruiter'', Signup ''a@x.com'' ''pw4'' ''admin'',
      PostJob (Some ''r@x.com'') ''Backend Engineer'' ''APIs'', Apply (Some ''c@x.com'') 1] = board"
  by (simp add: empty_db_def board_def oauth2_scheme_def signup_def add_user_def next_id_def post_job_def
      add_job_def apply_to_job_def add_application_def Job_recruiter_def send_email_def)

subsection \<open>\<^verbatim>\<open>list_applicants\<close>\<close>

text \<open>A recruiter who asks for a job that is not theirs, stored or not, gets 404.\<close>

lemma list_applicants_not_owned:
  assumes "wf_db db" "u \<in> set (users db)" "u_role u = ''recruiter''"
    and "\<forall>j \<in> set (jobs db). \<not> (j_id j = jid \<and> j_recruiter_id j = u_id u)"
  shows "list_applicants db (u_email u) jid = Inl (HTTPException 404 ''Job not found'')"
proof -
  have "find (\<lambda>j. j_id j = jid \<and> j_recruiter_id j = u_id u) (jobs db) = None"
    using assms(4) by (auto simp: find_None_iff)
  then show ?thesis
    using assms(1-3) by (simp add: list_applicants_def find_user_by_email)
qed

text \<open>A recruiter who asks for one of their own jobs gets the \<^verbatim>\<open>AttributeError\<close> of
  \<^verbatim>\<open>job.applications\<close>, whoever applied.\<close>

lemma list_applicants_owned:
  assumes "wf_db db" "u \<in> set (users db)" "u_role u = ''recruiter''"
    and "j \<in> set (jobs db)" "j_recruiter_id j = u_id u"
  shows "list_applicants db (u_email u) (j_id j) = Inl (AttributeError ''applications'')"
proof -
  have "find (\<lambda>k. j_id k = j_id j \<and> j_recruiter_id k = u_id u) (jobs db) \<noteq> None"
    using assms(4,5) by (auto simp: find_None_iff)
  then show ?thesis
    using assms(1-3) by (auto simp add: list_applicants_def find_user_by_email)
qed

text \<open>
  C1. \<^verbatim>\<open>list_applicants\<close> with a recruiter's credential fails with 404 when no job with
  that id is owned by this recruiter, and otherwise returns the emails of the candidates
  who applied to the job, in application order. On the board, the recruiter
  \<^verbatim>\<open>r@x.com\<close> owns job 1 and the candidate \<^verbatim>\<open>c@x.com\<close> applied to it: the claim's answer
  is the list of that one email, the handler raises \<^verbatim>\<open>AttributeError\<close> instead.
\<close>

theorem list_applicants_raises:
  "list_applicants board ''r@x.com'' 1 = Inl (AttributeError ''applications'')"
  by (simp add: list_applicants_def board_def)

subsection \<open>\<^verbatim>\<open>signup\<close> and \<^verbatim>\<open>login\<close>\<close>

text \<open>
  C3. \<^verbatim>\<open>signup\<close> fails with status 400 and leaves the store as it was when a user with
  that email is registered; otherwise it appends exactly one user row holding the email,
  the password and the role as given, whatever the role is, and acknowledges.
\<close>

theorem signup_conflict_or_create:
  "signup db e p r =
     (if e \<in> set (map u_email (users db))
      then (Inl (HTTPException 400 ''User already exists''), db)
      else (Inr ''User created successfully'',
            db\<lparr>users := users db @
               [\<lparr>u_id = next_id (map u_id (users db)), u_email = e, u_password = p, u_role = r\<rparr>]\<rparr>))"
proof (cases "e \<in> set (map u_email (users db))")
  case True
  then have "find (\<lambda>u. u_email u = e) (users db) \<noteq> None"
    by (auto simp: find_None_iff)
  with True show ?thesis by (auto simp: signup_def)
next
  case False
  then have "find (\<lambda>u. u_email u = e) (users db) = None"
    by (rule find_no_key)
  with False show ?thesis by (simp add: signup_def add_user_def)
qed

theorem signup_conflict_or_create_witness:
  "signup board ''c@x.com'' ''other'' ''recruiter'' = (Inl (HTTPException 400 ''User already exists''), board)
   \<and> signup empty_db ''r@x.com'' ''pw1'' ''recruiter'' =
       (Inr ''User created successfully'',
        \<lparr>users = [\<lparr>u_id = 1, u_email = ''r@x.com'', u_password = ''pw1'', u_role = ''recruiter''\<rparr>],
         jobs = [], applications = []\<rparr>)"
  using signup_conflict_or_create [of board "''c@x.com''" "''other''" "''recruiter''"]
    signup_conflict_or_create [of empty_db "''r@x.com''" "''pw1''" "''recruiter''"]
  by (simp add: board_def empty_db_def next_id_def)

text \<open>
  C4. For every stored user, \<^verbatim>\<open>login\<close> returns that user's email as the access token,
  with the token type \<^verbatim>\<open>bearer\<close>, exactly when the submitted username is the user's
  email and the submitted password is the stored password; when no user matches both
  fields it fails with status 400.
\<close>

theorem login_iff_exact_match:
  assumes "wf_db db" and "u \<in> set (users db)"
  shows "(login db username pw = Inr (u_email u, ''bearer'')
            \<longleftrightarrow> username = u_email u \<and> pw = u_password u)
         \<and> ((\<forall>v \<in> set (users db). \<not> (u_email v = username \<and> u_password v = pw))
            \<longrightarrow> login db username pw = Inl (HTTPException 400 ''Invalid credentials''))"
proof -
  let ?P = "\<lambda>v. u_email v = username \<and> u_password v = pw"
  have only_if: "username = u_email u \<and> pw = u_password u"
    if "login db username pw = Inr (u_email u, ''bearer'')"
  proof -
    from that obtain v where v: "find ?P (users db) = Some v" and e: "u_email v = u_email u"
      by (auto simp: login_def split: option.splits)
    from v have mem: "v \<in> set (users db)" and hit: "u_email v = username" "u_password v = pw"
      by (auto simp: find_Some_iff)
    have "inj_on u_email (set (users db))"
      using assms(1) by (simp add: wf_db_def distinct_map)
    from this e mem assms(2) have "v = u"
      by (rule inj_onD)
    with hit show ?thesis by simp
  qed
  have "if": "login db username pw = Inr (u_email u, ''bearer'')"
    if m: "username = u_email u \<and> pw = u_password u"
  proof -
    have "find ?P (users db) \<noteq> None"
      using assms(2) m by (auto simp: find_None_iff)
    then obtain v where v: "find ?P (users db) = Some v"
      by auto
    then have "u_email v = username" by (auto simp: find_Some_iff)
    with v m show ?thesis by (simp add: login_def)
  qed
  have none: "login db username pw = Inl (HTTPException 400 ''Invalid credentials'')"
    if "\<forall>v \<in> set (users db). \<not> ?P v"
  proof -
    from that have "find ?P (users db) = None"
      by (auto simp: find_None_iff)
    then show ?thesis by (simp add: login_def)
  qed
  from only_if "if" none show ?thesis by blast
qed

theorem login_iff_exact_match_witness:
  "login board ''c@x.com'' ''pw2'' = Inr (''c@x.com'', ''bearer'')
   \<and> login board ''c@x.com'' ''pw1'' \<noteq> Inr (''c@x.com'', ''bearer'')
   \<and> login board ''nobody@x.com'' ''pw2'' = Inl (HTTPException 400 ''Invalid credentials'')"
proof -
  let ?c = "\<lparr>u_id = 2, u_email = ''c@x.com'', u_password = ''pw2'', u_role = ''candidate''\<rparr>"
  have wf: "wf_db board" by (simp add: wf_db_def board_def)
  have mem: "?c \<in> set (users board)" by (simp add: board_def)
  have no: "\<forall>v \<in> set (users board). \<not> (u_email v = ''nobody@x.com'' \<and> u_password v = ''pw2'')"
    by (simp add: board_def)
  show ?thesis
    using login_iff_exact_match [OF wf mem, of "''c@x.com''" "''pw2''"]
      login_iff_exact_match [OF wf mem, of "''c@x.com''" "''pw1''"]
      login_iff_exact_match [OF wf mem, of "''nobody@x.com''" "''pw2''"] no
    by simp
qed

subsection \<open>\<^verbatim>\<open>post_job\<close>\<close>

text \<open>
  C5. \<^verbatim>\<open>post_job\<close> with a credential that is no stored user's email, or the email of a
  user whose role is not \<^verbatim>\<open>recruiter\<close> (a candidate's, say), fails with status 403 and
  leaves the store as it was; with a recruiter's credential it appends one job whose
  \<^verbatim>\<open>recruiter_id\<close> is that user's id, and acknowledges.
\<close>

theorem post_job_forbidden_or_created:
  assumes "wf_db db"
  shows "((\<forall>v \<in> set (users db). u_email v \<noteq> token)
            \<longrightarrow> post_job db token t d = (Inl (HTTPException 403 ''Not authorized''), db))
       \<and> (u \<in> set (users db) \<and> u_role u \<noteq> ''recruiter''
            \<longrightarrow> post_job db (u_email u) t d = (Inl (HTTPException 403 ''Not authorized''), db))
       \<and> (u \<in> set (users db) \<and> u_role u = ''recruiter''
            \<longrightarrow> post_job db (u_email u) t d =
                  (Inr ''Job posted successfully'',
                   db\<lparr>jobs := jobs db @
                      [\<lparr>j_id = next_id (map j_id (jobs db)), j_title = t, j_description = d,
                        j_recruiter_id = u_id u\<rparr>]\<rparr>))"
proof -
  have unknown: "post_job db token t d = (Inl (HTTPException 403 ''Not authorized''), db)"
    if "\<forall>v \<in> set (users db). u_email v \<noteq> token"
  proof -
    from that have "find (\<lambda>v. u_email v = token) (users db) = None"
      by (auto simp: find_None_iff)
    then show ?thesis by (simp add: post_job_def)
  qed
  have known: "find (\<lambda>v. u_email v = u_email u) (users db) = Some u" if "u \<in> set (users db)"
    using assms that by (rule find_user_by_email)
  show ?thesis
    using unknown known by (simp add: post_job_def add_job_def)
qed

theorem post_job_forbidden_or_created_witness:
  "post_job board ''nobody@x.com'' ''T'' ''D'' = (Inl (HTTPException 403 ''Not authorized''), board)
   \<and> post_job board ''c@x.com'' ''T'' ''D'' = (Inl (HTTPException 403 ''Not authorized''), board)
   \<and> post_job board ''s@x.com'' ''T'' ''D'' =
       (Inr ''Job posted successfully'',
        board\<lparr>jobs := jobs board @
           [\<lparr>j_id = 2, j_title = ''T'', j_description = ''D'', j_recruiter_id = 3\<rparr>]\<rparr>)"
proof -
  let ?c = "\<lparr>u_id = 2, u_email = ''c@x.com'', u_password = ''pw2'', u_role = ''candidate''\<rparr>"
  let ?s = "\<lparr>u_id = 3, u_email = ''s@x.com'', u_password = ''pw3'', u_role = ''recruiter''\<rparr>"
  have wf: "wf_db board" by (simp add: wf_db_def board_def)
  have no: "\<forall>v \<in> set (users board). u_email v \<noteq> ''nobody@x.com''"
    by (simp add: board_def)
  have c: "?c \<in> set (users board) \<and> u_role ?c \<noteq> ''recruiter''" by (simp add: board_def)
  have s: "?s \<in> set (users board) \<and> u_role ?s = ''recruiter''" by (simp add: board_def)
  have n: "next_id (map j_id (jobs board)) = 2" by (simp add: board_def next_id_def)
  show ?thesis
    using post_job_forbidden_or_created [OF wf, of "''nobody@x.com''" "''T''" "''D''" ?c] no c
      post_job_forbidden_or_created [OF wf, of "''nobody@x.com''" "''T''" "''D''" ?s] s n
    by simp
qed

subsection \<open>\<^verbatim>\<open>apply_to_job\<close>\<close>

text \<open>
  C2. For every candidate and every stored job, \<^verbatim>\<open>apply_to_job\<close> succeeds and appends
  exactly one application linking that candidate and that job, under a key no stored
  application has; the same call again succeeds again and appends a second application
  under another key; with a job id that no stored job has, the call fails with status 404
  and the store stays as it was.
\<close>

theorem apply_creates_one_application:
  assumes "wf_db db" and "u \<in> set (users db)" and "u_role u = ''candidate''"
  shows "(j \<in> set (jobs db) \<longrightarrow>
            (let db1 = db\<lparr>applications := applications db @ [new_application db u j]\<rparr>;
                 db2 = db\<lparr>applications := applications db @ [new_application db u j, new_application db1 u j]\<rparr>
             in fst (apply_to_job relay db (u_email u) (j_id j)) = Inr ''Applied successfully''
              \<and> fst (snd (apply_to_job relay db (u_email u) (j_id j))) = db1
              \<and> fst (apply_to_job relay db1 (u_email u) (j_id j)) = Inr ''Applied successfully''
              \<and> fst (snd (apply_to_job relay db1 (u_email u) (j_id j))) = db2
              \<and> a_id (new_application db u j) \<notin> set (map a_id (applications db))
              \<and> a_id (new_application db1 u j) \<noteq> a_id (new_application db u j)))
       \<and> (jid \<notin> set (map j_id (jobs db)) \<longrightarrow>
            apply_to_job relay db (u_email u) jid = (Inl (HTTPException 404 ''Job not found''), db, []))"
proof (intro conjI impI)
  assume j: "j \<in> set (jobs db)"
  let ?db1 = "db\<lparr>applications := applications db @ [new_application db u j]\<rparr>"
  have db1: "add_application db (u_id u) (j_id j) = ?db1"
    by (simp add: add_application_def new_application_def)
  have wf1: "wf_db ?db1"
    using wf_db_add_application [OF assms(1,2) j] by (simp add: db1)
  have u1: "u \<in> set (users ?db1)" and j1: "j \<in> set (jobs ?db1)"
    using assms(2) j by simp_all
  have db2: "add_application ?db1 (u_id u) (j_id j) =
      db\<lparr>applications := applications db @ [new_application db u j, new_application ?db1 u j]\<rparr>"
    by (simp add: add_application_def new_application_def)
  have first: "fst (apply_to_job relay db (u_email u) (j_id j)) = Inr ''Applied successfully''
      \<and> fst (snd (apply_to_job relay db (u_email u) (j_id j))) = ?db1"
    using apply_to_job_applied [OF assms j, of relay] by (auto simp: db1)
  have second: "fst (apply_to_job relay ?db1 (u_email u) (j_id j)) = Inr ''Applied successfully''
      \<and> fst (snd (apply_to_job relay ?db1 (u_email u) (j_id j))) =
          db\<lparr>applications := applications db @ [new_application db u j, new_application ?db1 u j]\<rparr>"
    using apply_to_job_applied [OF wf1 u1 assms(3) j1, of relay] db2 by auto
  have fresh: "a_id (new_application db u j) \<notin> set (map a_id (applications db))"
    using next_id_fresh [of "map a_id (applications db)"] by (simp add: new_application_def)
  have fresh2: "a_id (new_application ?db1 u j) \<noteq> a_id (new_application db u j)"
    using next_id_fresh [of "map a_id (applications ?db1)"] by (auto simp add: new_application_def)
  show "let db1 = ?db1;
            db2 = db\<lparr>applications := applications db @ [new_application db u j, new_application db1 u j]\<rparr>
        in fst (apply_to_job relay db (u_email u) (j_id j)) = Inr ''Applied successfully''
              \<and> fst (snd (apply_to_job relay db (u_email u) (j_id j))) = db1
              \<and> fst (apply_to_job relay db1 (u_email u) (j_id j)) = Inr ''Applied successfully''
              \<and> fst (snd (apply_to_job relay db1 (u_email u) (j_id j))) = db2
              \<and> a_id (new_application db u j) \<notin> set (map a_id (applications db))
              \<and> a_id (new_application db1 u j) \<noteq> a_id (new_application db u j)"
    unfolding Let_def using first second fresh fresh2 by blast
next
  assume "jid \<notin> set (map j_id (jobs db))"
  with assms show "apply_to_job relay db (u_email u) jid = (Inl (HTTPException 404 ''Job not found''), db, [])"
    by (rule apply_to_job_no_job)
qed


theorem apply_creates_one_application_witness:
  "fst (apply_to_job (\<lambda>_ _. None) board ''c@x.com'' 1) = Inr ''Applied successfully''
   \<and> applications (fst (snd (apply_to_job (\<lambda>_ _. None) board ''c@x.com'' 1))) =
       [\<lparr>a_id = 1, a_candidate_id = 2, a_job_id = 1\<rparr>, \<lparr>a_id = 2, a_candidate_id = 2, a_job_id = 1\<rparr>]
   \<and> apply_to_job (\<lambda>_ _. None) board ''c@x.com'' 7 = (Inl (HTTPException 404 ''Job not found''), board, [])"
proof -
  let ?c = "\<lparr>u_id = 2, u_email = ''c@x.com'', u_password = ''pw2'', u_role = ''candidate''\<rparr>"
  let ?j = "\<lparr>j_id = 1, j_title = ''Backend Engineer'', j_description = ''APIs'', j_recruiter_id = 1\<rparr>"
  have wf: "wf_db board" by (simp add: wf_db_def board_def)
  have c: "?c \<in> set (users board)" and r: "u_role ?c = ''candidate''"
    by (simp_all add: board_def)
  have j: "?j \<in> set (jobs board)" and n: "7 \<notin> set (map j_id (jobs board))"
    by (simp_all add: board_def)
  have a: "new_application board ?c ?j = \<lparr>a_id = 2, a_candidate_id = 2, a_job_id = 1\<rparr>"
    by (simp add: new_application_def board_def next_id_def)
  show ?thesis
    using apply_creates_one_application [OF wf c r, of ?j "\<lambda>_ _. None" 7] j n a
    by (simp add: Let_def board_def)
qed

text \<open>
  C6. Whatever the relay does with either of the two notifications, for every candidate
  and every stored job \<^verbatim>\<open>apply_to_job\<close> commits the application and acknowledges; the
  relay shows in the printed lines only, one line per failed attempt. For any request at
  all, two relays give the same response and leave the same store.
\<close>

theorem notification_failures_suppressed:
  assumes "wf_db db" and "u \<in> set (users db)" and "u_role u = ''candidate''"
    and "j \<in> set (jobs db)"
  shows "fst (apply_to_job relay db (u_email u) (j_id j)) = Inr ''Applied successfully''
       \<and> fst (snd (apply_to_job relay db (u_email u) (j_id j))) = add_application db (u_id u) (j_id j)
       \<and> (\<exists>rc \<in> set (users db). u_id rc = j_recruiter_id j \<and>
            snd (snd (apply_to_job relay db (u_email u) (j_id j))) =
              send_email relay (u_email rc) ''Job Application Received''
                (u_email u @ '' applied for your job '' @ [CHR 0x27] @ j_title j @ [CHR 0x27])
              @ send_email relay (u_email u) ''Application Submitted''
                (''You applied for the job '' @ [CHR 0x27] @ j_title j @ [CHR 0x27]))
       \<and> fst (apply_to_job relay' db token jid) = fst (apply_to_job relay db token jid)
       \<and> fst (snd (apply_to_job relay' db token jid)) = fst (snd (apply_to_job relay db token jid))"
proof -
  obtain rc where "rc \<in> set (users db)" and "u_id rc = j_recruiter_id j"
    and "apply_to_job relay db (u_email u) (j_id j) =
             (Inr ''Applied successfully'', add_application db (u_id u) (j_id j),
              send_email relay (u_email rc) ''Job Application Received''
                (u_email u @ '' applied for your job '' @ [CHR 0x27] @ j_title j @ [CHR 0x27])
              @ send_email relay (u_email u) ''Application Submitted''
                (''You applied for the job '' @ [CHR 0x27] @ j_title j @ [CHR 0x27]))"
    using apply_to_job_applied [OF assms, of relay] by blast
  then have "fst (apply_to_job relay db (u_email u) (j_id j)) = Inr ''Applied successfully''
       \<and> fst (snd (apply_to_job relay db (u_email u) (j_id j))) = add_application db (u_id u) (j_id j)
       \<and> (\<exists>rc \<in> set (users db). u_id rc = j_recruiter_id j \<and>
            snd (snd (apply_to_job relay db (u_email u) (j_id j))) =
              send_email relay (u_email rc) ''Job Application Received''
                (u_email u @ '' applied for your job '' @ [CHR 0x27] @ j_title j @ [CHR 0x27])
              @ send_email relay (u_email u) ''Application Submitted''
                (''You applied for the job '' @ [CHR 0x27] @ j_title j @ [CHR 0x27]))"
    by auto
  with apply_to_job_relay_irrelevant [of relay' db token jid relay] show ?thesis
    by blast
qed

theorem notification_failures_suppressed_witness:
  "apply_to_job (\<lambda>_ _. Some ''refused'') board ''c@x.com'' 1 =
     (Inr ''Applied successfully'',
      board\<lparr>applications := applications board @ [\<lparr>a_id = 2, a_candidate_id = 2, a_job_id = 1\<rparr>]\<rparr>,
      [''Error sending email: refused'', ''Error sending email: refused''])"
proof -
  let ?c = "\<lparr>u_id = 2, u_email = ''c@x.com'', u_password = ''pw2'', u_role = ''candidate''\<rparr>"
  let ?j = "\<lparr>j_id = 1, j_title = ''Backend Engineer'', j_description = ''APIs'', j_recruiter_id = 1\<rparr>"
  let ?relay = "\<lambda>_ _. Some ''refused''"
  have wf: "wf_db board" by (simp add: wf_db_def board_def)
  have c: "?c \<in> set (users board)" and r: "u_role ?c = ''candidate''"
    by (simp_all add: board_def)
  have j: "?j \<in> set (jobs board)"
    by (simp add: board_def)
  have a: "add_application board 2 1 =
      board\<lparr>applications := applications board @ [\<lparr>a_id = 2, a_candidate_id = 2, a_job_id = 1\<rparr>]\<rparr>"
    by (simp add: add_application_def board_def next_id_def)
  have l: "send_email ?relay to subject body = [''Error sending email: refused'']" for to subject body
    by (simp add: send_email_def)
  from notification_failures_suppressed [OF wf c r j, of ?relay ?relay "''c@x.com''" 1]
  have "fst (apply_to_job ?relay board ''c@x.com'' 1) = Inr ''Applied successfully''"
    and "fst (snd (apply_to_job ?relay board ''c@x.com'' 1)) =
      board\<lparr>applications := applications board @ [\<lparr>a_id = 2, a_candidate_id = 2, a_job_id = 1\<rparr>]\<rparr>"
    and "snd (snd (apply_to_job ?relay board ''c@x.com'' 1)) =
      [''Error sending email: refused'', ''Error sending email: refused'']"
    by (auto simp: a l)
  then show ?thesis by (metis prod.collapse)
qed

subsection \<open>The role gate\<close>

text \<open>
  C10. In every role-gated handler the role check comes before every other check: for a
  user whose role is neither \<^verbatim>\<open>recruiter\<close> nor \<^verbatim>\<open>candidate\<close>, each of \<^verbatim>\<open>post_job\<close>,
  \<^verbatim>\<open>apply_to_job\<close>, \<^verbatim>\<open>list_applications\<close> and \<^verbatim>\<open>list_applicants\<close> fails with status
  403 under that user's credential and changes nothing, whatever the job id, stored or
  not.
\<close>

theorem odd_role_forbidden_everywhere:
  assumes "wf_db db" and "u \<in> set (users db)"
    and "u_role u \<noteq> ''recruiter''" and "u_role u \<noteq> ''candidate''"
  shows "post_job db (u_email u) t d = (Inl (HTTPException 403 ''Not authorized''), db)
       \<and> apply_to_job relay db (u_email u) jid = (Inl (HTTPException 403 ''Not authorized''), db, [])
       \<and> list_applications db (u_email u) = Inl (HTTPException 403 ''Not authorized'')
       \<and> list_applicants db (u_email u) jid = Inl (HTTPException 403 ''Not authorized'')"
proof -
  have "find (\<lambda>v. u_email v = u_email u) (users db) = Some u"
    using assms(1,2) by (rule find_user_by_email)
  with assms(3,4) show ?thesis
    by (simp add: post_job_def apply_to_job_def list_applications_def list_applicants_def)
qed

theorem odd_role_forbidden_everywhere_witness:
  "post_job board ''a@x.com'' ''T'' ''D'' = (Inl (HTTPException 403 ''Not authorized''), board)
   \<and> apply_to_job (\<lambda>_ _. None) board ''a@x.com'' 99 = (Inl (HTTPException 403 ''Not authorized''), board, [])
   \<and> list_applications board ''a@x.com'' = Inl (HTTPException 403 ''Not authorized'')
   \<and> list_applicants board ''a@x.com'' 99 = Inl (HTTPException 403 ''Not authorized'')
   \<and> 99 \<notin> set (map j_id (jobs board))"
proof -
  let ?a = "\<lparr>u_id = 4, u_email = ''a@x.com'', u_password = ''pw4'', u_role = ''admin''\<rparr>"
  have wf: "wf_db board" by (simp add: wf_db_def board_def)
  have mem: "?a \<in> set (users board)" by (simp add: board_def)
  have r: "u_role ?a \<noteq> ''recruiter''" and c: "u_role ?a \<noteq> ''candidate''" by simp_all
  have "99 \<notin> set (map j_id (jobs board))" by (simp add: board_def)
  then show ?thesis
    using odd_role_forbidden_everywhere [OF wf mem r c, of "''T''" "''D''" "\<lambda>_ _. None" 99]
    by simp
qed

subsection \<open>Stored rows\<close>

text \<open>
  C8. No sequence of requests updates or deletes a stored user, job or application: each
  table after the requests starts with the table before them, row for row. \<^verbatim>\<open>logout\<close>
  leaves the store as it is, so every request is answered after it as it was before.
\<close>

theorem records_never_change:
  "prefix (users db) (users (run relay db reqs))
   \<and> prefix (jobs db) (jobs (run relay db reqs))
   \<and> prefix (applications db) (applications (run relay db reqs))
   \<and> snd (handle relay db Logout) = db
   \<and> fst (handle relay (snd (handle relay db Logout)) req) = fst (handle relay db req)"
  using run_keeps [of db relay reqs] by simp

theorem records_never_change_witness:
  "run (\<lambda>_ _. None) board
     [Signup ''n@x.com'' ''pw5'' ''candidate'', Logout, PostJob (Some ''s@x.com'') ''T'' ''D'',
      Apply (Some ''n@x.com'') 2, ListApplicants (Some ''s@x.com'') 2] =
     \<lparr>users = users board @ [\<lparr>u_id = 5, u_email = ''n@x.com'', u_password = ''pw5'', u_role = ''candidate''\<rparr>],
      jobs = jobs board @ [\<lparr>j_id = 2, j_title = ''T'', j_description = ''D'', j_recruiter_id = 3\<rparr>],
      applications = applications board @ [\<lparr>a_id = 2, a_candidate_id = 5, a_job_id = 2\<rparr>]\<rparr>
   \<and> prefix (users board) (users (run (\<lambda>_ _. None) board
     [Signup ''n@x.com'' ''pw5'' ''candidate'', Logout, PostJob (Some ''s@x.com'') ''T'' ''D'',
      Apply (Some ''n@x.com'') 2, ListApplicants (Some ''s@x.com'') 2]))
   \<and> fst (handle (\<lambda>_ _. None) (snd (handle (\<lambda>_ _. None) board Logout)) (ListJobs (Some ''c@x.com'')))
       = JobList [\<lparr>r_id = 1, r_title = ''Backend Engineer'', r_description = ''APIs''\<rparr>]"
proof -
  have "run (\<lambda>_ _. None) board
     [Signup ''n@x.com'' ''pw5'' ''candidate'', Logout, PostJob (Some ''s@x.com'') ''T'' ''D'',
      Apply (Some ''n@x.com'') 2, ListApplicants (Some ''s@x.com'') 2] =
     \<lparr>users = users board @ [\<lparr>u_id = 5, u_email = ''n@x.com'', u_password = ''pw5'', u_role = ''candidate''\<rparr>],
      jobs = jobs board @ [\<lparr>j_id = 2, j_title = ''T'', j_description = ''D'', j_recruiter_id = 3\<rparr>],
      applications = applications board @ [\<lparr>a_id = 2, a_candidate_id = 5, a_job_id = 2\<rparr>]\<rparr>"
    by (simp add: board_def oauth2_scheme_def signup_def add_user_def next_id_def post_job_def
      add_job_def apply_to_job_def add_application_def Job_recruiter_def send_email_def)
  moreover have "fst (handle (\<lambda>_ _. None) board (ListJobs (Some ''c@x.com'')))
       = JobList [\<lparr>r_id = 1, r_title = ''Backend Engineer'', r_description = ''APIs''\<rparr>]"
    by (simp add: board_def get_jobs_def oauth2_scheme_def list_jobs_def to_JobResponse_def reply_of_def)
  ultimately show ?thesis
    using records_never_change [of board "\<lambda>_ _. None"
      "[Signup ''n@x.com'' ''pw5'' ''candidate'', Logout, PostJob (Some ''s@x.com'') ''T'' ''D'',
      Apply (Some ''n@x.com'') 2, ListApplicants (Some ''s@x.com'') 2]" "ListJobs (Some ''c@x.com'')"]
    by simp
qed

subsection \<open>\<^verbatim>\<open>list_jobs\<close>\<close>

text \<open>
  C7. \<^verbatim>\<open>GET /jobs\<close> asks for a bearer credential and never resolves it: with any
  credential at all it returns every stored job, as identifier, title and description,
  and without one the dependency answers 401. In particular a job that \<^verbatim>\<open>post_job\<close>
  accepted is listed with the title and the description it was posted with, for every
  credential and after any further requests.
\<close>

theorem list_jobs_any_bearer:
  "get_jobs db (Some token) = Inr (map to_JobResponse (jobs db))
   \<and> get_jobs db None = Inl (HTTPException 401 ''Not authenticated'')
   \<and> (fst (post_job db tok t d) = Inr msg \<longrightarrow>
        (\<exists>i. \<lparr>r_id = i, r_title = t, r_description = d\<rparr>
               \<in> set (list_jobs (run relay (snd (post_job db tok t d)) reqs) token')))"
proof -
  have present: "get_jobs db (Some token) = Inr (map to_JobResponse (jobs db))"
    by (simp add: get_jobs_def oauth2_scheme_def list_jobs_def)
  have absent: "get_jobs db None = Inl (HTTPException 401 ''Not authenticated'')"
    by (simp add: get_jobs_def oauth2_scheme_def)
  have listed: "\<exists>i. \<lparr>r_id = i, r_title = t, r_description = d\<rparr>
               \<in> set (list_jobs (run relay (snd (post_job db tok t d)) reqs) token')"
    if "fst (post_job db tok t d) = Inr msg"
  proof -
    let ?db = "snd (post_job db tok t d)"
    from that obtain i rid where
      "jobs ?db = jobs db @ [\<lparr>j_id = i, j_title = t, j_description = d, j_recruiter_id = rid\<rparr>]"
      using post_job_appends by blast
    then have "\<lparr>j_id = i, j_title = t, j_description = d, j_recruiter_id = rid\<rparr> \<in> set (jobs ?db)"
      by simp
    moreover have "prefix (jobs ?db) (jobs (run relay ?db reqs))"
      using run_keeps [of ?db relay reqs] by simp
    ultimately have "\<lparr>j_id = i, j_title = t, j_description = d, j_recruiter_id = rid\<rparr>
        \<in> set (jobs (run relay ?db reqs))"
      using set_mono_prefix by blast
    then have "to_JobResponse \<lparr>j_id = i, j_title = t, j_description = d, j_recruiter_id = rid\<rparr>
        \<in> set (list_jobs (run relay ?db reqs) token')"
      by (simp add: list_jobs_def)
    then show ?thesis by (auto simp: to_JobResponse_def)
  qed
  from present absent listed show ?thesis by blast
qed

theorem list_jobs_any_bearer_witness:
  "get_jobs board (Some ''not a user'') =
     Inr [\<lparr>r_id = 1, r_title = ''Backend Engineer'', r_description = ''APIs''\<rparr>]
   \<and> fst (post_job board ''s@x.com'' ''T'' ''D'') = Inr ''Job posted successfully''
   \<and> (\<exists>i. \<lparr>r_id = i, r_title = ''T'', r_description = ''D''\<rparr>
          \<in> set (list_jobs (run (\<lambda>_ _. None) (snd (post_job board ''s@x.com'' ''T'' ''D''))
                              [Apply (Some ''c@x.com'') 2]) ''zzz''))"
proof -
  have p: "fst (post_job board ''s@x.com'' ''T'' ''D'') = Inr ''Job posted successfully''"
    by (simp add: post_job_def board_def)
  have j: "map to_JobResponse (jobs board) =
      [\<lparr>r_id = 1, r_title = ''Backend Engineer'', r_description = ''APIs''\<rparr>]"
    by (simp add: board_def to_JobResponse_def)
  show ?thesis
    using list_jobs_any_bearer [of board "''not a user''" "''s@x.com''" "''T''" "''D''"
        "''Job posted successfully''" "\<lambda>_ _. None" "[Apply (Some ''c@x.com'') 2]" "''zzz''"] p j
    by simp
qed

subsection \<open>The unique index on \<^verbatim>\<open>users.email\<close>\<close>

text \<open>
  C9. The schema declares \<^verbatim>\<open>users.email\<close> unique, apart from the check \<^verbatim>\<open>signup\<close>
  makes before it inserts. Two signups with one email that both ran the check on the same
  store, where the email is not registered, then insert one after the other: the first
  insert is taken, the store rejects the second with \<^verbatim>\<open>IntegrityError\<close>, and one user
  holds the email.
\<close>

theorem unique_email_rejects_racing_signup:
  assumes "find (\<lambda>u. u_email u = e) (users db) = None"
  shows "\<exists>db1. add_user db e p r = Inr db1
           \<and> add_user db1 e p' r' = Inl IntegrityError
           \<and> length (filter (\<lambda>u. u_email u = e) (users db1)) = 1"
proof -
  from assms have new: "e \<notin> set (map u_email (users db))"
    by (auto simp: find_None_iff)
  let ?db1 = "db\<lparr>users := users db @
      [\<lparr>u_id = next_id (map u_id (users db)), u_email = e, u_password = p, u_role = r\<rparr>]\<rparr>"
  from new have "add_user db e p r = Inr ?db1"
    by (simp add: add_user_def)
  moreover have "add_user ?db1 e p' r' = Inl IntegrityError"
    by (simp add: add_user_def)
  moreover from new have "filter (\<lambda>u. u_email u = e) (users db) = []"
    by (auto simp: filter_empty_conv)
  then have "length (filter (\<lambda>u. u_email u = e) (users ?db1)) = 1"
    by simp
  ultimately show ?thesis by blast
qed

theorem unique_email_rejects_racing_signup_witness:
  "find (\<lambda>u. u_email u = ''n@x.com'') (users board) = None
   \<and> (\<exists>db1. add_user board ''n@x.com'' ''first'' ''candidate'' = Inr db1
           \<and> add_user db1 ''n@x.com'' ''second'' ''recruiter'' = Inl IntegrityError
           \<and> length (filter (\<lambda>u. u_email u = ''n@x.com'') (users db1)) = 1)"
proof -
  have h: "find (\<lambda>u. u_email u = ''n@x.com'') (users board) = None"
    by (simp add: board_def)
  from unique_email_rejects_racing_signup [OF h, of "''first''" "''candidate''" "''second''" "''recruiter''"] h
  show ?thesis by blast
qed


end
